theory Spec2Isabelle
  imports Complex_Main "HOL-Library.Sublist"
begin

section \<open>JavaScript values\<close>

text \<open>
  The agent service reads data whose shape TypeScript does not check: the result of
  \<open>JSON.parse\<close> (typed \<open>any\<close>) and the arguments of a function call (typed
  \<open>Record<string, unknown>\<close>, cast to \<open>any\<close>). Such data is modelled as a JavaScript
  value. Numbers are IEEE doubles; no operation of the program computes with them, so
  their type is left abstract. An object is the list of its own properties.
\<close>

typedecl js_number

datatype js_value =
    JUndefined
  | JNull
  | JBool bool
  | JNumber js_number
  | JString string
  | JArray "js_value list"
  | JObject "(string \<times> js_value) list"

text \<open>What a \<open>try\<close> block of the program can catch.\<close>

datatype js_error =
    TypeError
  | SyntaxError
  | Error string
  | ProviderError string

text \<open>
  Property access \<open>v.k\<close>. Reading a property of \<open>undefined\<close> or \<open>null\<close> throws a
  TypeError; an object gives its own property or \<open>undefined\<close>; any other value gives
  \<open>undefined\<close>. The last case is right for the property names the program reads
  (\<open>agent\<close>, \<open>reasoning\<close>, \<open>docType\<close>, \<open>title\<close>, \<open>fields\<close>, \<open>complianceNote\<close>): none of
  them is a property of a string, an array, a number or a boolean, nor of
  \<open>Object.prototype\<close>.
\<close>

fun get_prop :: "js_value \<Rightarrow> string \<Rightarrow> js_error + js_value" where
  "get_prop JUndefined k = Inl TypeError"
| "get_prop JNull k = Inl TypeError"
| "get_prop (JObject kvs) k = Inr (case map_of kvs k of None \<Rightarrow> JUndefined | Some v \<Rightarrow> v)"
| "get_prop v k = Inr JUndefined"

text \<open>
  The string a template literal \<open>`${v}`\<close> inserts for a value. Strings, booleans,
  \<open>undefined\<close> and \<open>null\<close> are written out; the text of a number, an array or an object is
  the parameter \<open>other\<close> (JavaScript's \<open>ToString\<close> on them).
\<close>

fun js_to_string :: "(js_value \<Rightarrow> string) \<Rightarrow> js_value \<Rightarrow> string" where
  "js_to_string other (JString s) = s"
| "js_to_string other JUndefined = ''undefined''"
| "js_to_string other JNull = ''null''"
| "js_to_string other (JBool b) = (if b then ''true'' else ''false'')"
| "js_to_string other v = other v"

section \<open>Types (types.ts)\<close>

datatype AgentType = ORCHESTRATOR | ADMISSION | SCHEDULING | PHARMACY | BILLING

text \<open>\<open>AgentType\<close> is a string enum: at run time a member is its string.\<close>

fun AgentType_string :: "AgentType \<Rightarrow> string" where
  "AgentType_string ORCHESTRATOR = ''Central Manager''"
| "AgentType_string ADMISSION = ''PatientAdmissionAgent''"
| "AgentType_string SCHEDULING = ''AppointmentSchedulingAgent''"
| "AgentType_string PHARMACY = ''PharmacyManagementAgent''"
| "AgentType_string BILLING = ''BillingAndFinanceAgent''"

definition agent_id :: "AgentType \<Rightarrow> js_value" where
  "agent_id a = JString (AgentType_string a)"

text \<open>The four specialists: every member of the enum but the orchestrator.\<close>

definition specialists :: "AgentType list" where
  "specialists = [ADMISSION, SCHEDULING, PHARMACY, BILLING]"

definition is_specialist :: "js_value \<Rightarrow> bool" where
  "is_specialist v = (v \<in> set (map agent_id specialists))"

text \<open>
  \<open>GeneratedDocumentData\<close>. The fields are filled from a function call's arguments cast
  to \<open>any\<close>, so at run time each holds whatever value the backend sent.
\<close>

record GeneratedDocumentData =
  doc_type :: js_value
  doc_title :: js_value
  doc_content :: js_value
  doc_footer :: js_value

section \<open>The generation backend (@google/genai)\<close>

text \<open>
  The request \<open>ai.models.generateContent\<close> receives, and the parts of its response the
  program reads, with the optional fields the SDK declares as options.
\<close>

datatype schema_type = STRING | OBJECT

record property_schema =
  prop_type :: schema_type
  prop_description :: string
  prop_enum :: "string list option"
  additionalProperties :: "bool option"

record parameters_schema =
  params_type :: schema_type
  properties :: "(string \<times> property_schema) list"
  required :: "string list"

record FunctionDeclaration =
  decl_name :: string
  decl_description :: string
  parameters :: parameters_schema

datatype Tool = FunctionDeclarations "FunctionDeclaration list" | GoogleSearch

record gen_config =
  systemInstruction :: string
  responseMimeType :: "string option"
  temperature :: rat
  tools :: "Tool list option"

record gen_request =
  model :: string
  contents :: string
  config :: gen_config

record GroundingChunkWeb =
  web_uri :: "string option"
  web_title :: "string option"

record GroundingChunk =
  web :: "GroundingChunkWeb option"

record GroundingMetadata =
  groundingChunks :: "GroundingChunk list option"

record Candidate =
  groundingMetadata :: "GroundingMetadata option"

record FunctionCall =
  fc_name :: "string option"
  fc_args :: "(string \<times> js_value) list option"

record GenerateContentResponse =
  candidates :: "Candidate list option"
  functionCalls :: "FunctionCall list option"
  resp_text :: "string option"

text \<open>
  One call of the backend: it throws (a transport or provider error) or returns a
  response. The backend is a parameter of the two service functions.
\<close>

type_synonym backend = "gen_request \<Rightarrow> js_error + GenerateContentResponse"

text \<open>
  A backend mocked to answer every request with the same outcome, as a test of the
  services would set it up; the examples below use it.
\<close>

definition mocked :: "js_error + GenerateContentResponse \<Rightarrow> backend" where
  "mocked outcome request = outcome"

section \<open>Phase 1: the orchestrator (agentService.ts)\<close>

definition orchestrator_instruction :: string where
  "orchestrator_instruction =
     ''\<newline>'' @
     ''    ROLE: You are the Central Manager (Orchestrator) for the MHO (Manage Hospital Operations) system.\<newline>'' @
     ''    GOAL: Analyze the user request and delegate it to the single most appropriate Sub-Agent.\<newline>'' @
     ''    \<newline>'' @
     ''    SUB-AGENTS:\<newline>'' @
     ''    1. PatientAdmissionAgent: Registration, EHR updates, admission/discharge.\<newline>'' @
     ''    2. AppointmentSchedulingAgent: New appointments, rescheduling, doctor availability.\<newline>'' @
     ''    3. PharmacyManagementAgent: Medication requests, drug interactions, prescriptions.\<newline>'' @
     ''    4. BillingAndFinanceAgent: Invoices (Faktur), Insurance Claims (Klaim), Revenue Cycle Management (RCM).\<newline>'' @
     ''    \<newline>'' @
     ''    OUTPUT: Return a JSON object ONLY.\<newline>'' @
     ''    {\<newline>'' @
     ''      \"agent\": \"PatientAdmissionAgent\" | \"AppointmentSchedulingAgent\" | \"PharmacyManagementAgent\" | \"BillingAndFinanceAgent\",\<newline>'' @
     ''      \"reasoning\": \"Brief explanation of why\"\<newline>'' @
     ''    }\<newline>'' @
     ''  ''"

definition orchestrator_request :: "string \<Rightarrow> gen_request" where
  "orchestrator_request userQuery =
     \<lparr>model = ''gemini-2.5-flash'',
      contents = userQuery,
      config = \<lparr>systemInstruction = orchestrator_instruction,
                responseMimeType = Some ''application/json'',
                temperature = 1 / 10,
                tools = None\<rparr>\<rparr>"

record delegation =
  agent :: js_value
  reasoning :: js_value

text \<open>
  The body of the \<open>try\<close> block of \<open>orchestrateRequest\<close>. \<open>JSON_parse\<close> is JavaScript's
  \<open>JSON.parse\<close>, a parameter: \<open>None\<close> where it throws a SyntaxError. \<open>!text\<close> holds for an
  absent and for an empty text.
\<close>

definition orchestrateRequest_try ::
  "(string \<Rightarrow> js_value option) \<Rightarrow> backend \<Rightarrow> string \<Rightarrow> js_error + delegation" where
  "orchestrateRequest_try JSON_parse generateContent userQuery =
     (case generateContent (orchestrator_request userQuery) of
        Inl e \<Rightarrow> Inl e
      | Inr response \<Rightarrow>
          (case resp_text response of
             None \<Rightarrow> Inl (Error ''No response from Orchestrator'')
           | Some t \<Rightarrow>
               if t = [] then Inl (Error ''No response from Orchestrator'')
               else
                 (case JSON_parse t of
                    None \<Rightarrow> Inl SyntaxError
                  | Some result \<Rightarrow>
                      (case get_prop result ''agent'' of
                         Inl e \<Rightarrow> Inl e
                       | Inr a \<Rightarrow>
                           (case get_prop result ''reasoning'' of
                              Inl e \<Rightarrow> Inl e
                            | Inr r \<Rightarrow> Inr \<lparr>agent = a, reasoning = r\<rparr>)))))"

text \<open>
  \<open>orchestrateRequest\<close>: the \<open>catch\<close> clause logs the error and returns the fallback, so
  the promise never rejects.
\<close>

definition orchestrateRequest ::
  "(string \<Rightarrow> js_value option) \<Rightarrow> backend \<Rightarrow> string \<Rightarrow> delegation" where
  "orchestrateRequest JSON_parse generateContent userQuery =
     (case orchestrateRequest_try JSON_parse generateContent userQuery of
        Inl error \<Rightarrow> \<lparr>agent = agent_id ADMISSION, reasoning = JString ''Fallback due to error.''\<rparr>
      | Inr result \<Rightarrow> result)"

section \<open>Phase 2: sub-agent execution (agentService.ts)\<close>

text \<open>Tool 1: the document tool, used by admission, pharmacy and billing.\<close>

definition generateDocumentFunction :: FunctionDeclaration where
  "generateDocumentFunction =
     \<lparr>decl_name = ''generate_document'',
      decl_description = ''Generates an official hospital document (Invoice, Prescription, Admission Form). REQUIRED for any formal request.'',
      parameters =
        \<lparr>params_type = OBJECT,
         properties =
           [(''docType'',
               \<lparr>prop_type = STRING,
                prop_description = ''Type of document: INVOICE, PRESCRIPTION, ADMISSION_FORM, MEMO'',
                prop_enum = Some [''INVOICE'', ''PRESCRIPTION'', ''ADMISSION_FORM'', ''MEMO''],
                additionalProperties = None\<rparr>),
            (''title'',
               \<lparr>prop_type = STRING,
                prop_description = ''Title of the document'',
                prop_enum = None,
                additionalProperties = None\<rparr>),
            (''fields'',
               \<lparr>prop_type = OBJECT,
                prop_description = ''Key-value pairs of the document content (e.g., Patient Name, Cost, Drug Name)'',
                prop_enum = None,
                additionalProperties = Some True\<rparr>),
            (''complianceNote'',
               \<lparr>prop_type = STRING,
                prop_description = ''HIPAA or Audit compliance footer note'',
                prop_enum = None,
                additionalProperties = None\<rparr>)],
         required = [''docType'', ''title'', ''fields'', ''complianceNote'']\<rparr>\<rparr>"

definition admission_instruction :: string where
  "admission_instruction =
     ''Role: PatientAdmissionAgent. \<newline>'' @
     ''      Task: Handle patient registration and EHR updates. \<newline>'' @
     ''      Compliance: Ensure HIPAA compliance. Use 'generate_document' if the user needs an Admission Form.''"

definition scheduling_instruction :: string where
  "scheduling_instruction =
     ''Role: AppointmentSchedulingAgent. \<newline>'' @
     ''      Task: Check doctor availability and schedule appointments. \<newline>'' @
     ''      Tools: Use Google Search to find doctor schedules or general medical dept info if implied.''"

definition pharmacy_instruction :: string where
  "pharmacy_instruction =
     ''Role: PharmacyManagementAgent. \<newline>'' @
     ''      Task: Check drug interactions and issue prescriptions.\<newline>'' @
     ''      Tools: Use Google Search to verify drug contraindications. Use 'generate_document' to issue a PRESCRIPTION.''"

definition billing_instruction :: string where
  "billing_instruction =
     ''Role: BillingAndFinanceAgent (RCM Focus). \<newline>'' @
     ''      Task: Manage invoices, insurance claims, and financial audits.\<newline>'' @
     ''      Tone: Professional, precise, audit-ready.\<newline>'' @
     ''      Tools: You MUST use 'generate_document' if the user asks for an invoice (Faktur) or claim status report.''"

text \<open>
  The \<open>switch (agent)\<close> of \<open>executeAgentTask\<close>: the system instruction and the tools of
  the call. \<open>tools\<close> starts as the empty array and \<open>systemInstruction\<close> as the empty
  string; the \<open>default\<close> branch sets the instruction only. The cases compare with
  \<open>===\<close>, and the argument is whatever value the caller passes.
\<close>

definition agent_dispatch :: "js_value \<Rightarrow> string \<times> Tool list" where
  "agent_dispatch a =
     (if a = agent_id ADMISSION then
        (admission_instruction, [FunctionDeclarations [generateDocumentFunction]])
      else if a = agent_id SCHEDULING then
        (scheduling_instruction, [GoogleSearch])
      else if a = agent_id PHARMACY then
        (pharmacy_instruction, [GoogleSearch, FunctionDeclarations [generateDocumentFunction]])
      else if a = agent_id BILLING then
        (billing_instruction, [FunctionDeclarations [generateDocumentFunction]])
      else
        (''You are a helpful hospital assistant.'', []))"

definition agent_request :: "js_value \<Rightarrow> string \<Rightarrow> string \<Rightarrow> gen_request" where
  "agent_request a userQuery history =
     \<lparr>model = ''gemini-2.5-flash'',
      contents = ''Context: '' @ history @ ''\<newline>\<newline>Current Request: '' @ userQuery,
      config = \<lparr>systemInstruction = fst (agent_dispatch a),
                responseMimeType = None,
                temperature = 3 / 10,
                tools = Some (snd (agent_dispatch a))\<rparr>\<rparr>"

record grounding_source =
  src_uri :: "string option"
  src_title :: "string option"

record agent_result =
  res_text :: string
  res_document :: "GeneratedDocumentData option"
  res_groundingSources :: "grounding_source list option"

text \<open>
  \<open>response.candidates?.[0]?.groundingMetadata?.groundingChunks\<close>: \<open>undefined\<close> as soon
  as one link of the chain is missing.
\<close>

definition response_groundingChunks :: "GenerateContentResponse \<Rightarrow> GroundingChunk list option" where
  "response_groundingChunks response =
     (case candidates response of
        None \<Rightarrow> None
      | Some [] \<Rightarrow> None
      | Some (c # cs) \<Rightarrow>
          (case groundingMetadata c of
             None \<Rightarrow> None
           | Some m \<Rightarrow> groundingChunks m))"

text \<open>
  The grounding sources: \<open>chunks.map(chunk => chunk.web).filter(web => web).map(web =>
  ({uri: web.uri, title: web.title}))\<close>. A web reference is an object, so it is truthy
  exactly when it is there.
\<close>

definition source_of_web :: "GroundingChunkWeb option \<Rightarrow> grounding_source" where
  "source_of_web w = \<lparr>src_uri = Option.bind w web_uri, src_title = Option.bind w web_title\<rparr>"

definition extract_sources :: "GenerateContentResponse \<Rightarrow> grounding_source list" where
  "extract_sources response =
     (case response_groundingChunks response of
        None \<Rightarrow> []
      | Some chunks \<Rightarrow> map source_of_web (filter (\<lambda>w. w \<noteq> None) (map web chunks)))"

text \<open>
  The property \<open>args.k\<close> of a function call's arguments, an object when they are there:
  an own property or \<open>undefined\<close>.
\<close>

definition arg :: "(string \<times> js_value) list \<Rightarrow> string \<Rightarrow> js_value" where
  "arg args k = (case map_of args k of None \<Rightarrow> JUndefined | Some v \<Rightarrow> v)"

definition confirmation_text :: "(js_value \<Rightarrow> string) \<Rightarrow> js_value \<Rightarrow> string" where
  "confirmation_text other docType =
     ''I have generated the '' @ js_to_string other docType @
     '' document for you. Please verify the details below.''"

text \<open>
  The function-call handling: the document and the output text after the
  \<open>if (functionCalls && functionCalls.length > 0) ... else ...\<close> statement. With a call
  at hand only its first element is read; reading \<open>args.docType\<close> of absent arguments
  throws a TypeError.
\<close>

definition handle_function_calls ::
  "(js_value \<Rightarrow> string) \<Rightarrow> GenerateContentResponse \<Rightarrow>
     js_error + (GeneratedDocumentData option \<times> string)" where
  "handle_function_calls other response =
     (case functionCalls response of
        Some (call # rest) \<Rightarrow>
          if fc_name call = Some ''generate_document'' then
            (case fc_args call of
               None \<Rightarrow> Inl TypeError
             | Some args \<Rightarrow>
                 Inr (Some \<lparr>doc_type = arg args ''docType'',
                             doc_title = arg args ''title'',
                             doc_content = arg args ''fields'',
                             doc_footer = arg args ''complianceNote''\<rparr>,
                      confirmation_text other (arg args ''docType'')))
          else Inr (None, [])
      | _ \<Rightarrow>
          Inr (None,
               (case resp_text response of
                  None \<Rightarrow> ''Processed request.''
                | Some t \<Rightarrow> if t = [] then ''Processed request.'' else t)))"

text \<open>The body of the \<open>try\<close> block of \<open>executeAgentTask\<close>.\<close>

definition executeAgentTask_try ::
  "(js_value \<Rightarrow> string) \<Rightarrow> backend \<Rightarrow> js_value \<Rightarrow> string \<Rightarrow> string \<Rightarrow>
     js_error + agent_result" where
  "executeAgentTask_try other generateContent a userQuery history =
     (case generateContent (agent_request a userQuery history) of
        Inl e \<Rightarrow> Inl e
      | Inr response \<Rightarrow>
          (let sources = extract_sources response in
           case handle_function_calls other response of
             Inl e \<Rightarrow> Inl e
           | Inr (generatedDoc, outputText) \<Rightarrow>
               Inr \<lparr>res_text =
                      (if outputText = [] \<and> generatedDoc \<noteq> None then ''Document generated.''
                       else outputText),
                    res_document = generatedDoc,
                    res_groundingSources = Some sources\<rparr>))"

text \<open>
  \<open>executeAgentTask\<close>: the \<open>catch\<close> clause returns the apology, an object with a text
  and nothing else.
\<close>

definition executeAgentTask ::
  "(js_value \<Rightarrow> string) \<Rightarrow> backend \<Rightarrow> js_value \<Rightarrow> string \<Rightarrow> string \<Rightarrow> agent_result" where
  "executeAgentTask other generateContent a userQuery history =
     (case executeAgentTask_try other generateContent a userQuery history of
        Inl error \<Rightarrow>
          \<lparr>res_text = ''I encountered a system error processing your request. Please contact IT support.'',
           res_document = None,
           res_groundingSources = None\<rparr>
      | Inr result \<Rightarrow> result)"

section \<open>The application (App.tsx)\<close>

datatype Role = user | model_message

datatype Status = SUCCESS | PENDING | DENIED

text \<open>
  \<open>ChatMessage\<close> and \<open>AuditLogEntry\<close>. A \<open>Date\<close> is its time value in milliseconds.
  The sender and the agent are declared \<open>AgentType\<close>, and hold the value the
  orchestrator returned.
\<close>

record ChatMessage =
  msg_id :: string
  msg_role :: Role
  msg_text :: string
  msg_sender :: js_value
  msg_timestamp :: nat
  documentData :: "GeneratedDocumentData option"
  groundingSources :: "grounding_source list option"

record AuditLogEntry =
  log_id :: string
  log_timestamp :: string
  log_agent :: js_value
  log_action :: string
  log_status :: Status

text \<open>The state of the component: one field for each \<open>useState\<close>.\<close>

record app_state =
  messages :: "ChatMessage list"
  input :: string
  isLoading :: bool
  currentAgent :: js_value
  auditLogs :: "AuditLogEntry list"
  isSidebarOpen :: bool

text \<open>The state at mount; \<open>mounted\<close> is the time read by \<open>new Date()\<close> then.\<close>

definition App_initial :: "nat \<Rightarrow> app_state" where
  "App_initial mounted =
     \<lparr>messages =
        [\<lparr>msg_id = ''welcome'',
          msg_role = model_message,
          msg_text = ''Welcome to MHO (Manage Hospital Operations). I am the Central Manager. How can I assist you today? (e.g., 'Check my insurance claim', 'Schedule a cardiology appointment')'',
          msg_sender = agent_id ORCHESTRATOR,
          msg_timestamp = mounted,
          documentData = None,
          groundingSources = None\<rparr>],
      input = [],
      isLoading = False,
      currentAgent = agent_id ORCHESTRATOR,
      auditLogs = [],
      isSidebarOpen = False\<rparr>"

text \<open>
  What one run of \<open>handleSend\<close> reads from the clock and the random number generator,
  in the order of the reads: \<open>Date.now()\<close> and \<open>new Date()\<close> as milliseconds,
  \<open>Math.random()\<close> as the text of its number, \<open>toLocaleTimeString()\<close> as its text.
\<close>

record readings =
  user_now :: nat
  user_date :: nat
  delegated_now :: nat
  delegated_random :: string
  delegated_time :: string
  reply_now :: nat
  reply_date :: nat
  executed_now :: nat
  executed_random :: string
  executed_time :: string
  error_now :: nat
  error_date :: nat

text \<open>\<open>n.toString()\<close> of a non-negative integer: its decimal digits.\<close>

fun nat_toString :: "nat \<Rightarrow> string" where
  "nat_toString n =
     (if n < 10 then [char_of (48 + n)]
      else nat_toString (n div 10) @ [char_of (48 + n mod 10)])"

text \<open>\<open>xs.join(sep)\<close> of an array of strings.\<close>

fun join :: "string \<Rightarrow> string list \<Rightarrow> string" where
  "join sep [] = []"
| "join sep [x] = x"
| "join sep (x # y # ys) = x @ sep @ join sep (y # ys)"

text \<open>
  \<open>addAuditLog\<close>, with the two reads of the clock and the random number as arguments.
  It is the only place where the program writes the audit log.
\<close>

definition addAuditLog ::
  "nat \<Rightarrow> string \<Rightarrow> string \<Rightarrow> js_value \<Rightarrow> string \<Rightarrow> app_state \<Rightarrow> app_state" where
  "addAuditLog now random time a action s =
     (let newLog = \<lparr>log_id = nat_toString now @ random,
                     log_timestamp = time,
                     log_agent = a,
                     log_action = action,
                     log_status = SUCCESS\<rparr>
      in s\<lparr>auditLogs := auditLogs s @ [newLog]\<rparr>)"

text \<open>The \<open>catch\<close> clause of \<open>handleSend\<close>.\<close>

definition handleSend_catch :: "readings \<Rightarrow> app_state \<Rightarrow> app_state" where
  "handleSend_catch clock s =
     (let errorMsg = \<lparr>msg_id = nat_toString (error_now clock),
                       msg_role = model_message,
                       msg_text = ''I apologize, but I encountered a secure connection error. Please try again.'',
                       msg_sender = agent_id ORCHESTRATOR,
                       msg_timestamp = error_date clock,
                       documentData = None,
                       groundingSources = None\<rparr>
      in s\<lparr>messages := messages s @ [errorMsg], currentAgent := agent_id ORCHESTRATOR\<rparr>)"

text \<open>
  The history handed to the executor: \<open>messages.map(m => `${m.sender}: ${m.text}`)
  .join('\n')\<close>, over the messages of the render that created the handler, that is
  the messages before this turn.
\<close>

definition historyContext :: "(js_value \<Rightarrow> string) \<Rightarrow> ChatMessage list \<Rightarrow> string" where
  "historyContext other ms =
     join ''\<newline>'' (map (\<lambda>m. js_to_string other (msg_sender m) @ '': '' @ msg_text m) ms)"

text \<open>
  \<open>handleSend\<close>, one whole run of it. \<open>trim\<close> is \<open>String.prototype.trim\<close>, a parameter.
  The two services are parameters too, as the imports make them: \<open>Inl\<close> is a rejected
  promise. The run is taken as one step of the state: each update of the state is a
  functional one (\<open>prev => [...prev, x]\<close>), and while \<open>isLoading\<close> holds another run
  returns at once.
\<close>

definition handleSend ::
  "(js_value \<Rightarrow> string) \<Rightarrow> (string \<Rightarrow> string) \<Rightarrow>
   (string \<Rightarrow> js_error + delegation) \<Rightarrow>
   (js_value \<Rightarrow> string \<Rightarrow> string \<Rightarrow> js_error + agent_result) \<Rightarrow>
   readings \<Rightarrow> app_state \<Rightarrow> app_state" where
  "handleSend other trim orchestrate execute clock s =
     (if trim (input s) = [] \<or> isLoading s then s
      else
        (let userMsg = \<lparr>msg_id = nat_toString (user_now clock),
                         msg_role = user,
                         msg_text = input s,
                         msg_sender = JString ''User'',
                         msg_timestamp = user_date clock,
                         documentData = None,
                         groundingSources = None\<rparr>;
             s1 = s\<lparr>messages := messages s @ [userMsg], input := [], isLoading := True,
                    currentAgent := agent_id ORCHESTRATOR\<rparr>;
             finished =
               (case orchestrate (msg_text userMsg) of
                  Inl error \<Rightarrow> handleSend_catch clock s1
                | Inr delegation \<Rightarrow>
                    (let s2 = addAuditLog (delegated_now clock) (delegated_random clock)
                                (delegated_time clock) (agent_id ORCHESTRATOR)
                                (''Delegated to '' @ js_to_string other (agent delegation)) s1;
                         s3 = s2\<lparr>currentAgent := agent delegation\<rparr>
                     in case execute (agent delegation) (msg_text userMsg)
                               (historyContext other (messages s)) of
                          Inl error \<Rightarrow> handleSend_catch clock s3
                        | Inr response \<Rightarrow>
                            (let agentMsg = \<lparr>msg_id = nat_toString (reply_now clock + 1),
                                              msg_role = model_message,
                                              msg_text = res_text response,
                                              msg_sender = agent delegation,
                                              msg_timestamp = reply_date clock,
                                              documentData = res_document response,
                                              groundingSources = res_groundingSources response\<rparr>;
                                 s4 = s3\<lparr>messages := messages s3 @ [agentMsg]\<rparr>
                             in addAuditLog (executed_now clock) (executed_random clock)
                                  (executed_time clock) (agent delegation)
                                  (case res_document response of
                                     Some document \<Rightarrow>
                                       ''Generated '' @ js_to_string other (doc_type document)
                                   | None \<Rightarrow> ''Responded to query'') s4)))
         in finished\<lparr>isLoading := False\<rparr>))"

text \<open>
  The built-ins of JavaScript the program calls, as one parameter of the application:
  \<open>JSON.parse\<close>, the text of a number, an array or an object in a template literal, and
  \<open>trim\<close>.
\<close>

record js_builtins =
  js_JSON_parse :: "string \<Rightarrow> js_value option"
  js_to_string_other :: "js_value \<Rightarrow> string"
  js_trim :: "string \<Rightarrow> string"

text \<open>
  \<open>handleSend\<close> as the application runs it, with the two services of
  \<open>agentService.ts\<close>. Neither of them rejects: each catches what its body throws.
\<close>

definition App_handleSend ::
  "js_builtins \<Rightarrow> backend \<Rightarrow> backend \<Rightarrow> readings \<Rightarrow> app_state \<Rightarrow> app_state" where
  "App_handleSend js router specialist clock s =
     handleSend (js_to_string_other js) (js_trim js)
       (\<lambda>userQuery. Inr (orchestrateRequest (js_JSON_parse js) router userQuery))
       (\<lambda>a userQuery history.
          Inr (executeAgentTask (js_to_string_other js) specialist a userQuery history))
       clock s"

text \<open>
  What the user can do: type into the input box, send (the button or the Enter key; the
  backend's behaviour in the two phases and the clock come with the event), select an
  agent in the sidebar (which closes the sidebar on a narrow window), open or close the
  sidebar.
\<close>

datatype event =
    Type string
  | Send backend backend readings
  | SelectAgent AgentType bool
  | OpenSidebar
  | CloseSidebar

fun step :: "js_builtins \<Rightarrow> event \<Rightarrow> app_state \<Rightarrow> app_state" where
  "step js (Type t) s = s\<lparr>input := t\<rparr>"
| "step js (Send router specialist clock) s = App_handleSend js router specialist clock s"
| "step js (SelectAgent a narrow) s =
     (let s1 = s\<lparr>currentAgent := agent_id a\<rparr>
      in if narrow then s1\<lparr>isSidebarOpen := False\<rparr> else s1)"
| "step js OpenSidebar s = s\<lparr>isSidebarOpen := True\<rparr>"
| "step js CloseSidebar s = s\<lparr>isSidebarOpen := False\<rparr>"

fun run :: "js_builtins \<Rightarrow> app_state \<Rightarrow> event list \<Rightarrow> app_state" where
  "run js s [] = s"
| "run js s (ev # evs) = run js (step js ev s) evs"

text \<open>
  A send is a turn when \<open>handleSend\<close> passes its guard; a turn runs to its end, since
  no service rejects.
\<close>

fun is_turn :: "js_builtins \<Rightarrow> event \<Rightarrow> app_state \<Rightarrow> bool" where
  "is_turn js (Send router specialist clock) s =
     (\<not> (js_trim js (input s) = [] \<or> isLoading s))"
| "is_turn js ev s = False"

fun completed_turns :: "js_builtins \<Rightarrow> app_state \<Rightarrow> event list \<Rightarrow> nat" where
  "completed_turns js s [] = 0"
| "completed_turns js s (ev # evs) =
     (if is_turn js ev s then 1 else 0) + completed_turns js (step js ev s) evs"

section \<open>The audit trail of a session, as the specification words it\<close>

text \<open>
  The specification's account of the audit log: a completed turn contributes one
  delegation entry, recorded after classification, and one execution entry, recorded
  after execution; nothing else contributes.
\<close>

definition delegation_entry :: "js_builtins \<Rightarrow> readings \<Rightarrow> delegation \<Rightarrow> AuditLogEntry" where
  "delegation_entry js clock d =
     \<lparr>log_id = nat_toString (delegated_now clock) @ delegated_random clock,
      log_timestamp = delegated_time clock,
      log_agent = agent_id ORCHESTRATOR,
      log_action = ''Delegated to '' @ js_to_string (js_to_string_other js) (agent d),
      log_status = SUCCESS\<rparr>"

definition execution_entry ::
  "js_builtins \<Rightarrow> readings \<Rightarrow> delegation \<Rightarrow> agent_result \<Rightarrow> AuditLogEntry" where
  "execution_entry js clock d r =
     \<lparr>log_id = nat_toString (executed_now clock) @ executed_random clock,
      log_timestamp = executed_time clock,
      log_agent = agent d,
      log_action =
        (case res_document r of
           None \<Rightarrow> ''Responded to query''
         | Some document \<Rightarrow>
             ''Generated '' @ js_to_string (js_to_string_other js) (doc_type document)),
      log_status = SUCCESS\<rparr>"

definition turn_delegation :: "js_builtins \<Rightarrow> backend \<Rightarrow> app_state \<Rightarrow> delegation" where
  "turn_delegation js router s = orchestrateRequest (js_JSON_parse js) router (input s)"

definition turn_result :: "js_builtins \<Rightarrow> backend \<Rightarrow> backend \<Rightarrow> app_state \<Rightarrow> agent_result" where
  "turn_result js router specialist s =
     executeAgentTask (js_to_string_other js) specialist (agent (turn_delegation js router s))
       (input s) (historyContext (js_to_string_other js) (messages s))"

fun event_audit :: "js_builtins \<Rightarrow> event \<Rightarrow> app_state \<Rightarrow> AuditLogEntry list" where
  "event_audit js (Send router specialist clock) s =
     (if is_turn js (Send router specialist clock) s then
        [delegation_entry js clock (turn_delegation js router s),
         execution_entry js clock (turn_delegation js router s)
           (turn_result js router specialist s)]
      else [])"
| "event_audit js ev s = []"

fun session_audit :: "js_builtins \<Rightarrow> app_state \<Rightarrow> event list \<Rightarrow> AuditLogEntry list" where
  "session_audit js s [] = []"
| "session_audit js s (ev # evs) = event_audit js ev s @ session_audit js (step js ev s) evs"


section \<open>Properties\<close>

declare nat_toString.simps [simp del]

subsection \<open>The orchestrator\<close>

lemma get_prop_any_key: "get_prop v k = Inr a \<Longrightarrow> \<exists>r. get_prop v k' = Inr r"
  by (cases v) auto

lemma is_specialist_ADMISSION: "is_specialist (agent_id ADMISSION)"
  by (simp add: is_specialist_def specialists_def)

lemma is_specialist_not_orchestrator: "is_specialist v \<Longrightarrow> v \<noteq> agent_id ORCHESTRATOR"
  by (auto simp: is_specialist_def specialists_def agent_id_def)

text \<open>
  When the \<open>try\<close> block returns, the backend answered with a non-empty text that
  \<open>JSON.parse\<close> accepted, and the agent returned is the \<open>agent\<close> property of the parsed
  value; conversely such an answer makes the block return that property.
\<close>

lemma orchestrateRequest_try_decoded:
  assumes "orchestrateRequest_try JSON_parse generateContent userQuery = Inr d"
  shows "\<exists>response t result.
           generateContent (orchestrator_request userQuery) = Inr response \<and>
           resp_text response = Some t \<and> t \<noteq> [] \<and> JSON_parse t = Some result \<and>
           get_prop result ''agent'' = Inr (agent d)"
  using assms
  by (auto simp: orchestrateRequest_try_def split: sum.splits option.splits if_splits)

lemma orchestrateRequest_try_returns:
  assumes "generateContent (orchestrator_request userQuery) = Inr response"
    and "resp_text response = Some t" and "t \<noteq> []" and "JSON_parse t = Some result"
    and "get_prop result ''agent'' = Inr a"
  shows "\<exists>r. orchestrateRequest_try JSON_parse generateContent userQuery =
           Inr \<lparr>agent = a, reasoning = r\<rparr>"
proof -
  obtain r where "get_prop result ''reasoning'' = Inr r"
    using get_prop_any_key [OF assms(5)] by blast
  then show ?thesis
    using assms by (simp add: orchestrateRequest_try_def)
qed

lemma orchestrateRequest_passes_agent:
  assumes "generateContent (orchestrator_request userQuery) = Inr response"
    and "resp_text response = Some t" and "t \<noteq> []" and "JSON_parse t = Some result"
    and "get_prop result ''agent'' = Inr a"
  shows "agent (orchestrateRequest JSON_parse generateContent userQuery) = a"
proof -
  obtain r where "orchestrateRequest_try JSON_parse generateContent userQuery =
           Inr \<lparr>agent = a, reasoning = r\<rparr>"
    using orchestrateRequest_try_returns
      [where generateContent = generateContent and JSON_parse = JSON_parse, OF assms]
    by blast
  then show ?thesis
    by (simp add: orchestrateRequest_def)
qed

text \<open>
  Claim C1, as amended. \<open>orchestrateRequest\<close> returns one of the four specialist
  identifiers, and so not the orchestrator's, for every request text and every outcome
  of the backend call except one: a response whose non-empty text \<open>JSON.parse\<close> accepts
  and whose \<open>agent\<close> property is not a specialist identifier. The hypothesis says that
  whenever the response decodes, the agent it names is a specialist; a failed call, an
  absent or empty text, a text \<open>JSON.parse\<close> rejects and the value \<open>null\<close> all satisfy it
  and lead to the admission agent.
\<close>

theorem orchestrateRequest_agent:
  assumes "\<And>response t result a.
             generateContent (orchestrator_request userQuery) = Inr response \<Longrightarrow>
             resp_text response = Some t \<Longrightarrow> t \<noteq> [] \<Longrightarrow> JSON_parse t = Some result \<Longrightarrow>
             get_prop result ''agent'' = Inr a \<Longrightarrow> is_specialist a"
  shows "is_specialist (agent (orchestrateRequest JSON_parse generateContent userQuery)) \<and>
         agent (orchestrateRequest JSON_parse generateContent userQuery) \<noteq> agent_id ORCHESTRATOR"
proof
  show specialist:
    "is_specialist (agent (orchestrateRequest JSON_parse generateContent userQuery))"
  proof (cases "orchestrateRequest_try JSON_parse generateContent userQuery")
    case (Inl e)
    then show ?thesis
      by (simp add: orchestrateRequest_def is_specialist_ADMISSION)
  next
    case (Inr d)
    from orchestrateRequest_try_decoded [OF Inr] assms have "is_specialist (agent d)"
      by blast
    with Inr show ?thesis
      by (simp add: orchestrateRequest_def)
  qed
  show "agent (orchestrateRequest JSON_parse generateContent userQuery) \<noteq> agent_id ORCHESTRATOR"
    using specialist by (rule is_specialist_not_orchestrator)
qed

text \<open>
  The theorem at a response that names the pharmacy agent, and at a response that is
  not JSON. In the examples \<open>JSON.parse\<close> is given as a table: the value it returns
  for the text of the response, and a SyntaxError for every other text.
\<close>

theorem orchestrateRequest_agent_witness:
  "is_specialist (agent (orchestrateRequest
     (map_of [(''{\"agent\":\"PharmacyManagementAgent\",\"reasoning\":\"Medication request\"}'',
        JObject [(''agent'', JString ''PharmacyManagementAgent''),
                 (''reasoning'', JString ''Medication request'')])])
     (mocked (Inr \<lparr>candidates = None, functionCalls = None,
        resp_text = Some ''{\"agent\":\"PharmacyManagementAgent\",\"reasoning\":\"Medication request\"}''\<rparr>))
     ''I need a refill of amoxicillin'')) \<and>
   is_specialist (agent (orchestrateRequest Map.empty
     (mocked (Inr \<lparr>candidates = None, functionCalls = None, resp_text = Some ''not json''\<rparr>))
     ''I need a refill of amoxicillin''))"
proof
  let ?t = "''{\"agent\":\"PharmacyManagementAgent\",\"reasoning\":\"Medication request\"}''"
  let ?result = "JObject [(''agent'', JString ''PharmacyManagementAgent''),
                 (''reasoning'', JString ''Medication request'')]"
  let ?response = "\<lparr>candidates = None, functionCalls = None, resp_text = Some ?t\<rparr>"
  have "is_specialist (agent (orchestrateRequest (map_of [(?t, ?result)])
      (mocked (Inr ?response)) ''I need a refill of amoxicillin'')) \<and>
    agent (orchestrateRequest (map_of [(?t, ?result)])
      (mocked (Inr ?response)) ''I need a refill of amoxicillin'') \<noteq> agent_id ORCHESTRATOR"
  proof (rule orchestrateRequest_agent)
    fix response t result a
    assume "mocked (Inr ?response) (orchestrator_request ''I need a refill of amoxicillin'') =
        Inr response"
      and "resp_text response = Some t" and "map_of [(?t, ?result)] t = Some result"
      and "get_prop result ''agent'' = Inr a"
    then have "a = JString ''PharmacyManagementAgent''"
      by (auto simp: mocked_def split: if_splits)
    then show "is_specialist a"
      by (simp add: is_specialist_def specialists_def agent_id_def)
  qed
  then show "is_specialist (agent (orchestrateRequest (map_of [(?t, ?result)])
      (mocked (Inr ?response)) ''I need a refill of amoxicillin''))"
    by simp
  show "is_specialist (agent (orchestrateRequest Map.empty
     (mocked (Inr \<lparr>candidates = None, functionCalls = None, resp_text = Some ''not json''\<rparr>))
     ''I need a refill of amoxicillin''))"
    using orchestrateRequest_agent [of
        "mocked (Inr \<lparr>candidates = None, functionCalls = None, resp_text = Some ''not json''\<rparr>)"
        "''I need a refill of amoxicillin''" Map.empty]
    by simp
qed

text \<open>
  The claim as stated fails: a well-formed response that names \<open>Central Manager\<close> makes
  \<open>orchestrateRequest\<close> return the orchestrator's own identifier.
\<close>

theorem orchestrateRequest_agent_counterexample:
  "agent (orchestrateRequest
     (map_of [(''{\"agent\":\"Central Manager\",\"reasoning\":\"General question\"}'',
        JObject [(''agent'', JString ''Central Manager''),
                 (''reasoning'', JString ''General question'')])])
     (mocked (Inr \<lparr>candidates = None, functionCalls = None,
        resp_text = Some ''{\"agent\":\"Central Manager\",\"reasoning\":\"General question\"}''\<rparr>))
     ''Who are you?'') = agent_id ORCHESTRATOR \<and>
   \<not> is_specialist (agent_id ORCHESTRATOR)"
  by (simp add: orchestrateRequest_def orchestrateRequest_try_def mocked_def agent_id_def
      is_specialist_def specialists_def)

text \<open>
  Claim C4. If the backend call of \<open>orchestrateRequest\<close> throws, the function returns
  (it has no other outcome) the admission agent, with the rationale that marks the
  fallback.
\<close>

theorem orchestrateRequest_backend_error:
  "generateContent (orchestrator_request userQuery) = Inl e \<Longrightarrow>
   orchestrateRequest JSON_parse generateContent userQuery =
     \<lparr>agent = agent_id ADMISSION, reasoning = JString ''Fallback due to error.''\<rparr>"
  by (simp add: orchestrateRequest_def orchestrateRequest_try_def)

theorem orchestrateRequest_backend_error_witness:
  "orchestrateRequest Map.empty (mocked (Inl (ProviderError ''503 Service Unavailable'')))
     ''Schedule a cardiology appointment'' =
     \<lparr>agent = JString ''PatientAdmissionAgent'', reasoning = JString ''Fallback due to error.''\<rparr>"
  using orchestrateRequest_backend_error
    [of "mocked (Inl (ProviderError ''503 Service Unavailable''))"
        "''Schedule a cardiology appointment''" "ProviderError ''503 Service Unavailable''" Map.empty]
  by (simp add: mocked_def agent_id_def)

subsection \<open>The executor\<close>

text \<open>
  Claim C9. The dispatch of \<open>executeAgentTask\<close> gives admission the document tool,
  scheduling the search only, pharmacy the search and the document tool, billing the
  document tool, each with its own instruction; any value that is not a specialist
  identifier gets the generic instruction and no tool. The request sent to the backend
  carries the instruction and the tools of the dispatch.
\<close>

theorem agent_dispatch_table:
  "agent_dispatch (agent_id ADMISSION) =
     (admission_instruction, [FunctionDeclarations [generateDocumentFunction]]) \<and>
   agent_dispatch (agent_id SCHEDULING) = (scheduling_instruction, [GoogleSearch]) \<and>
   agent_dispatch (agent_id PHARMACY) =
     (pharmacy_instruction, [GoogleSearch, FunctionDeclarations [generateDocumentFunction]]) \<and>
   agent_dispatch (agent_id BILLING) =
     (billing_instruction, [FunctionDeclarations [generateDocumentFunction]]) \<and>
   (\<not> is_specialist a \<longrightarrow> agent_dispatch a = (''You are a helpful hospital assistant.'', [])) \<and>
   systemInstruction (config (agent_request a userQuery history)) = fst (agent_dispatch a) \<and>
   tools (config (agent_request a userQuery history)) = Some (snd (agent_dispatch a))"
  by (simp add: agent_dispatch_def agent_request_def is_specialist_def specialists_def
      agent_id_def)

theorem agent_dispatch_table_witness:
  "\<not> is_specialist (JString ''Central Manager'') \<and>
   agent_dispatch (JString ''Central Manager'') = (''You are a helpful hospital assistant.'', []) \<and>
   tools (config (agent_request (JString ''Central Manager'') ''hello'' '''')) = Some []"
  using agent_dispatch_table [of "JString ''Central Manager''" "''hello''" "''''"]
  by (simp add: is_specialist_def specialists_def agent_id_def)

text \<open>
  Claim C5. If the backend call of \<open>executeAgentTask\<close> throws, the function returns
  (it has no other outcome) the apology, with no document and no grounding sources.
\<close>

theorem executeAgentTask_backend_error:
  "generateContent (agent_request a userQuery history) = Inl e \<Longrightarrow>
   executeAgentTask other generateContent a userQuery history =
     \<lparr>res_text = ''I encountered a system error processing your request. Please contact IT support.'',
      res_document = None,
      res_groundingSources = None\<rparr>"
  by (simp add: executeAgentTask_def executeAgentTask_try_def)

theorem executeAgentTask_backend_error_witness:
  "executeAgentTask (\<lambda>v. ''[object Object]'') (mocked (Inl (ProviderError ''fetch failed'')))
     (JString ''BillingAndFinanceAgent'') ''Generate invoice for surgery'' '''' =
     \<lparr>res_text = ''I encountered a system error processing your request. Please contact IT support.'',
      res_document = None,
      res_groundingSources = None\<rparr>"
  using executeAgentTask_backend_error
    [of "mocked (Inl (ProviderError ''fetch failed''))" "JString ''BillingAndFinanceAgent''"
        "''Generate invoice for surgery''" "''''" "ProviderError ''fetch failed''"
        "\<lambda>v. ''[object Object]''"]
  by (simp add: mocked_def)








lemma confirmation_text_nonempty: "confirmation_text other d \<noteq> []"
  by (simp add: confirmation_text_def)



text \<open>
  The reply text is not empty when the backend fails, when there is no function call,
  and when the first function call is \<open>generate_document\<close>.
\<close>

lemma executeAgentTask_text_nonempty:
  assumes "\<And>response call rest.
             generateContent (agent_request a userQuery history) = Inr response \<Longrightarrow>
             functionCalls response = Some (call # rest) \<Longrightarrow>
             fc_name call = Some ''generate_document''"
  shows "res_text (executeAgentTask other generateContent a userQuery history) \<noteq> []"
proof (cases "generateContent (agent_request a userQuery history)")
  case (Inl e)
  then show ?thesis
    by (simp add: executeAgentTask_def executeAgentTask_try_def)
next
  case (Inr response)
  show ?thesis
  proof (cases "functionCalls response")
    case None
    with Inr show ?thesis
      by (simp add: executeAgentTask_def executeAgentTask_try_def handle_function_calls_def
          split: option.splits)
  next
    case (Some calls)
    show ?thesis
    proof (cases calls)
      case Nil
      with Inr Some show ?thesis
        by (simp add: executeAgentTask_def executeAgentTask_try_def handle_function_calls_def
            split: option.splits)
    next
      case (Cons call rest)
      then have "fc_name call = Some ''generate_document''"
        using assms Inr Some by simp
      with Inr Some Cons show ?thesis
        by (simp add: executeAgentTask_def executeAgentTask_try_def handle_function_calls_def
            confirmation_text_nonempty split: option.splits)
    qed
  qed
qed

text \<open>
  Claim C2 does not hold of the code. At a response whose first function call has
  another name than \<open>generate_document\<close>, \<open>executeAgentTask\<close> catches no error and
  returns the empty text: neither branch of the function-call statement sets the
  output text, and the default text is only given when there is a document.
\<close>

theorem executeAgentTask_empty_reply:
  "executeAgentTask_try other
     (mocked (Inr \<lparr>candidates = None,
        functionCalls = Some [\<lparr>fc_name = Some ''lookup_patient'',
                               fc_args = Some [(''patientId'', JString ''P-1'')]\<rparr>],
        resp_text = Some ''Looking up the patient record.''\<rparr>))
     a userQuery history =
     Inr \<lparr>res_text = [], res_document = None, res_groundingSources = Some []\<rparr> \<and>
   res_text (executeAgentTask other
     (mocked (Inr \<lparr>candidates = None,
        functionCalls = Some [\<lparr>fc_name = Some ''lookup_patient'',
                               fc_args = Some [(''patientId'', JString ''P-1'')]\<rparr>],
        resp_text = Some ''Looking up the patient record.''\<rparr>))
     a userQuery history) = []"
  by (simp add: executeAgentTask_def executeAgentTask_try_def mocked_def
      handle_function_calls_def extract_sources_def response_groundingChunks_def)

subsection \<open>The application\<close>

text \<open>
  What one send does to the messages and to the audit log. A send that is no turn
  changes nothing. A turn takes the path of success: the two services return, so the
  \<open>catch\<close> clause of \<open>handleSend\<close> is never entered.
\<close>

lemma App_handleSend_rejected:
  "\<not> is_turn js (Send router specialist clock) s \<Longrightarrow>
   App_handleSend js router specialist clock s = s"
  by (auto simp: App_handleSend_def handleSend_def)

lemma App_handleSend_auditLogs:
  "is_turn js (Send router specialist clock) s \<Longrightarrow>
   auditLogs (App_handleSend js router specialist clock s) =
     auditLogs s @
       [delegation_entry js clock (turn_delegation js router s),
        execution_entry js clock (turn_delegation js router s)
          (turn_result js router specialist s)]"
  by (simp add: App_handleSend_def handleSend_def addAuditLog_def Let_def
      delegation_entry_def execution_entry_def turn_delegation_def turn_result_def
      split: option.splits)


lemma step_auditLogs: "auditLogs (step js ev s) = auditLogs s @ event_audit js ev s"
proof (cases ev)
  case (Send router specialist clock)
  then show ?thesis
    using App_handleSend_rejected [of js router specialist clock s]
      App_handleSend_auditLogs [of js router specialist clock s]
    by (cases "is_turn js (Send router specialist clock) s") simp_all
qed (simp_all add: Let_def)

lemma run_auditLogs: "auditLogs (run js s evs) = auditLogs s @ session_audit js s evs"
  by (induction evs arbitrary: s) (simp_all add: step_auditLogs)

lemma length_event_audit: "length (event_audit js ev s) = (if is_turn js ev s then 2 else 0)"
  by (cases ev) simp_all

lemma length_session_audit: "length (session_audit js s evs) = 2 * completed_turns js s evs"
  by (induction evs arbitrary: s) (simp_all add: length_event_audit)



lemma event_audit_status: "e \<in> set (event_audit js ev s) \<Longrightarrow> log_status e = SUCCESS"
  by (cases ev) (auto simp: delegation_entry_def execution_entry_def split: if_splits)

lemma step_status:
  assumes "\<forall>e \<in> set (auditLogs s). log_status e = SUCCESS"
  shows "\<forall>e \<in> set (auditLogs (step js ev s)). log_status e = SUCCESS"
  using assms by (auto simp: step_auditLogs dest: event_audit_status)

lemma run_status:
  assumes "\<forall>e \<in> set (auditLogs s). log_status e = SUCCESS"
  shows "\<forall>e \<in> set (auditLogs (run js s evs)). log_status e = SUCCESS"
  using assms
proof (induction evs arbitrary: s)
  case Nil
  then show ?case by simp
next
  case (Cons ev evs)
  from Cons.prems have "\<forall>e \<in> set (auditLogs (step js ev s)). log_status e = SUCCESS"
    by (rule step_status)
  then show ?case
    using Cons.IH by simp
qed

lemma handleSend_catch_auditLogs: "auditLogs (handleSend_catch clock s) = auditLogs s"
  by (simp add: handleSend_catch_def)

lemma handleSend_status:
  assumes "\<forall>e \<in> set (auditLogs s). log_status e = SUCCESS"
  shows "\<forall>e \<in> set (auditLogs (handleSend other trim orchestrate execute clock s)).
           log_status e = SUCCESS"
  using assms
  by (auto simp: handleSend_def Let_def handleSend_catch_auditLogs addAuditLog_def
      split: sum.splits)

text \<open>
  Claim C10. Every entry of the audit log has the status \<open>SUCCESS\<close>: in every session
  from the initial state, and after any session, and after \<open>handleSend\<close> with any two
  services (also services that reject), from a state whose entries have it. No operation
  produces \<open>PENDING\<close> or \<open>DENIED\<close>.
\<close>

theorem auditLogs_status:
  "(\<forall>e \<in> set (auditLogs (run js (App_initial mounted) evs)). log_status e = SUCCESS) \<and>
   ((\<forall>e \<in> set (auditLogs s). log_status e = SUCCESS) \<longrightarrow>
    (\<forall>e \<in> set (auditLogs (run js s evs)). log_status e = SUCCESS) \<and>
    (\<forall>e \<in> set (auditLogs (handleSend other trim orchestrate execute clock s)).
       log_status e = SUCCESS))"
proof (intro conjI impI)
  have "\<forall>e \<in> set (auditLogs (App_initial mounted)). log_status e = SUCCESS"
    by (simp add: App_initial_def)
  then show "\<forall>e \<in> set (auditLogs (run js (App_initial mounted) evs)). log_status e = SUCCESS"
    by (rule run_status)
next
  assume "\<forall>e \<in> set (auditLogs s). log_status e = SUCCESS"
  then show "\<forall>e \<in> set (auditLogs (run js s evs)). log_status e = SUCCESS"
    by (rule run_status)
next
  assume "\<forall>e \<in> set (auditLogs s). log_status e = SUCCESS"
  then show "\<forall>e \<in> set (auditLogs (handleSend other trim orchestrate execute clock s)).
       log_status e = SUCCESS"
    by (rule handleSend_status)
qed

text \<open>
  A session of one turn, whose router falls back and whose specialist answers in plain
  text: the two entries of the log have the status \<open>SUCCESS\<close>.
\<close>

theorem auditLogs_status_witness:
  "map log_status
     (auditLogs (run
        \<lparr>js_JSON_parse = Map.empty, js_to_string_other = (\<lambda>v. ''[object Object]''),
         js_trim = (\<lambda>t. t)\<rparr>
        (App_initial 0)
        [Type ''Generate invoice for surgery'',
         Send (mocked (Inl (ProviderError ''fetch failed'')))
              (mocked (Inr \<lparr>candidates = None, functionCalls = None,
                 resp_text = Some ''Which patient is the invoice for?''\<rparr>))
              \<lparr>user_now = 1000, user_date = 1000, delegated_now = 1200,
               delegated_random = ''0.25'', delegated_time = ''10:00:01 AM'',
               reply_now = 2000, reply_date = 2000, executed_now = 2000,
               executed_random = ''0.75'', executed_time = ''10:00:02 AM'',
               error_now = 0, error_date = 0\<rparr>])) =
   [SUCCESS, SUCCESS] \<and>
   map log_status
     (auditLogs (handleSend (\<lambda>v. ''[object Object]'') (\<lambda>t. t)
        (\<lambda>userQuery. Inr \<lparr>agent = JString ''BillingAndFinanceAgent'',
                             reasoning = JString ''Invoice request''\<rparr>)
        (\<lambda>a userQuery history. Inl (Error ''rejected''))
        \<lparr>user_now = 1000, user_date = 1000, delegated_now = 1200,
         delegated_random = ''0.25'', delegated_time = ''10:00:01 AM'',
         reply_now = 2000, reply_date = 2000, executed_now = 2000,
         executed_random = ''0.75'', executed_time = ''10:00:02 AM'',
         error_now = 2000, error_date = 2000\<rparr>
        ((App_initial 0)\<lparr>input := ''Generate invoice for surgery''\<rparr>))) =
   [SUCCESS]"
proof
  let ?js = "\<lparr>js_JSON_parse = Map.empty, js_to_string_other = (\<lambda>v. ''[object Object]''),
         js_trim = (\<lambda>t. t)\<rparr>"
  let ?evs = "[Type ''Generate invoice for surgery'',
         Send (mocked (Inl (ProviderError ''fetch failed'')))
              (mocked (Inr \<lparr>candidates = None, functionCalls = None,
                 resp_text = Some ''Which patient is the invoice for?''\<rparr>))
              \<lparr>user_now = 1000, user_date = 1000, delegated_now = 1200,
               delegated_random = ''0.25'', delegated_time = ''10:00:01 AM'',
               reply_now = 2000, reply_date = 2000, executed_now = 2000,
               executed_random = ''0.75'', executed_time = ''10:00:02 AM'',
               error_now = 0, error_date = 0\<rparr>]"
  let ?logs = "auditLogs (run ?js (App_initial 0) ?evs)"
  have "length ?logs = 2 * completed_turns ?js (App_initial 0) ?evs"
    by (simp only: run_auditLogs length_append length_session_audit)
      (simp add: App_initial_def)
  moreover have "completed_turns ?js (App_initial 0) ?evs = 1"
    by (simp add: App_initial_def)
  ultimately have "length ?logs = 2"
    by simp
  then obtain e1 e2 where logs: "?logs = [e1, e2]"
    by (auto simp: length_Suc_conv numeral_2_eq_2)
  have "\<forall>e \<in> set ?logs. log_status e = SUCCESS"
    using auditLogs_status [of ?js 0 ?evs] by blast
  with logs show "map log_status ?logs = [SUCCESS, SUCCESS]"
    by simp
next
  let ?s = "(App_initial 0)\<lparr>input := ''Generate invoice for surgery''\<rparr>"
  let ?after = "handleSend (\<lambda>v. ''[object Object]'') (\<lambda>t. t)
        (\<lambda>userQuery. Inr \<lparr>agent = JString ''BillingAndFinanceAgent'',
                             reasoning = JString ''Invoice request''\<rparr>)
        (\<lambda>a userQuery history. Inl (Error ''rejected''))
        \<lparr>user_now = 1000, user_date = 1000, delegated_now = 1200,
         delegated_random = ''0.25'', delegated_time = ''10:00:01 AM'',
         reply_now = 2000, reply_date = 2000, executed_now = 2000,
         executed_random = ''0.75'', executed_time = ''10:00:02 AM'',
         error_now = 2000, error_date = 2000\<rparr> ?s"
  have before: "\<forall>e \<in> set (auditLogs ?s). log_status e = SUCCESS"
    by (simp add: App_initial_def)
  have "length (auditLogs ?after) = 1"
    by (simp add: handleSend_def Let_def handleSend_catch_auditLogs addAuditLog_def
        App_initial_def)
  then obtain e where logs: "auditLogs ?after = [e]"
    by (auto simp: length_Suc_conv)
  have "\<forall>e \<in> set (auditLogs ?after). log_status e = SUCCESS"
    using auditLogs_status [THEN conjunct2, THEN mp, OF before, THEN conjunct2] .
  with logs show "map log_status (auditLogs ?after) = [SUCCESS]"
    by simp
qed







end
